theory Spec2Isabelle
  imports Complex_Main "HOL-Library.Char_ord" "HOL-Library.List_Lexorder"
begin

section \<open>JavaScript numbers\<close>

text \<open>
  The functions of \<^verbatim>\<open>src/utils/calculations.ts\<close> compute on JavaScript numbers, that is on
  IEEE 754 binary64 values. A number is a finite value, one of the two infinities, or NaN.
  Every arithmetic operation computes the exact real result and rounds it to the nearest
  binary64 value, ties to even, overflowing to an infinity.

  Two things are left out. The sign of zero is not represented: the code under study never
  divides by a zero (every divisor is a positive array length or was tested against
  \<^verbatim>\<open>=== 0\<close> before), so the sign of a zero cannot influence any other value. NaN has one
  representative, as in JavaScript.
\<close>

datatype jsnum = Fin real | PInf | NInf | NaN

definition roundEven :: "real \<Rightarrow> int" where
  "roundEven q =
     (let f = \<lfloor>q\<rfloor>; d = q - of_int f
      in if d < 1 / 2 then f
         else if 1 / 2 < d then f + 1
         else if even f then f else f + 1)"

text \<open>
  \<open>rnd r\<close> is the binary64 value of the real \<open>r\<close>: with \<open>e\<close> the binary exponent of \<open>r\<close>
  (at least \<open>-1022\<close>, where the subnormal range starts), the spacing of the binary64 values
  around \<open>r\<close> is \<open>2 powr (e - 52)\<close>; \<open>r\<close> is rounded to a multiple of that spacing, and a
  result of magnitude \<open>2 ^ 1024\<close> or more is an infinity.
\<close>

definition ulp :: "real \<Rightarrow> real" where
  "ulp r = 2 powr (of_int (max \<lfloor>log 2 \<bar>r\<bar>\<rfloor> (- 1022) - 52))"

definition rnd :: "real \<Rightarrow> jsnum" where
  "rnd r =
     (if r = 0 then Fin 0
      else let v = of_int (roundEven (r / ulp r)) * ulp r
           in if 2 ^ 1024 \<le> \<bar>v\<bar> then (if 0 < r then PInf else NInf) else Fin v)"

fun isFinite :: "jsnum \<Rightarrow> bool" where
  "isFinite (Fin _) = True"
| "isFinite _ = False"

fun jneg :: "jsnum \<Rightarrow> jsnum" where
  "jneg (Fin a) = Fin (- a)"
| "jneg PInf = NInf"
| "jneg NInf = PInf"
| "jneg NaN = NaN"

fun jadd :: "jsnum \<Rightarrow> jsnum \<Rightarrow> jsnum" where
  "jadd (Fin a) (Fin b) = rnd (a + b)"
| "jadd NaN _ = NaN"
| "jadd _ NaN = NaN"
| "jadd PInf NInf = NaN"
| "jadd NInf PInf = NaN"
| "jadd PInf _ = PInf"
| "jadd NInf _ = NInf"
| "jadd (Fin _) PInf = PInf"
| "jadd (Fin _) NInf = NInf"

definition jsub :: "jsnum \<Rightarrow> jsnum \<Rightarrow> jsnum" where
  "jsub a b = jadd a (jneg b)"

text \<open>The sign of a number, for the products and quotients with an infinity.\<close>

fun jsign :: "jsnum \<Rightarrow> int" where
  "jsign (Fin a) = (if a < 0 then - 1 else if a = 0 then 0 else 1)"
| "jsign PInf = 1"
| "jsign NInf = - 1"
| "jsign NaN = 0"

definition infOfSign :: "int \<Rightarrow> jsnum" where
  "infOfSign s = (if s < 0 then NInf else PInf)"

fun jmul :: "jsnum \<Rightarrow> jsnum \<Rightarrow> jsnum" where
  "jmul (Fin a) (Fin b) = rnd (a * b)"
| "jmul NaN _ = NaN"
| "jmul _ NaN = NaN"
| "jmul a b = (if jsign a * jsign b = 0 then NaN else infOfSign (jsign a * jsign b))"

fun jdiv :: "jsnum \<Rightarrow> jsnum \<Rightarrow> jsnum" where
  "jdiv NaN _ = NaN"
| "jdiv _ NaN = NaN"
| "jdiv (Fin a) (Fin b) =
     (if b = 0 then (if a = 0 then NaN else infOfSign (jsign (Fin a))) else rnd (a / b))"
| "jdiv (Fin _) _ = Fin 0"
| "jdiv a (Fin b) = infOfSign (jsign a * (if b < 0 then - 1 else 1))"
| "jdiv _ _ = NaN"

fun jsqrt :: "jsnum \<Rightarrow> jsnum" where
  "jsqrt (Fin a) = (if a < 0 then NaN else rnd (sqrt a))"
| "jsqrt PInf = PInf"
| "jsqrt NInf = NaN"
| "jsqrt NaN = NaN"

text \<open>\<^verbatim>\<open>Math.pow(x, 2)\<close>: the rounded square.\<close>

fun jpow2 :: "jsnum \<Rightarrow> jsnum" where
  "jpow2 (Fin a) = rnd (a * a)"
| "jpow2 NaN = NaN"
| "jpow2 _ = PInf"

text \<open>\<^verbatim>\<open>Math.min\<close> and \<^verbatim>\<open>Math.max\<close> return NaN as soon as one argument is NaN.\<close>

fun jle :: "jsnum \<Rightarrow> jsnum \<Rightarrow> bool" where
  "jle NaN _ = False"
| "jle _ NaN = False"
| "jle NInf _ = True"
| "jle _ PInf = True"
| "jle (Fin a) (Fin b) = (a \<le> b)"
| "jle _ _ = False"

fun jmin :: "jsnum \<Rightarrow> jsnum \<Rightarrow> jsnum" where
  "jmin NaN _ = NaN"
| "jmin _ NaN = NaN"
| "jmin a b = (if jle a b then a else b)"

fun jmax :: "jsnum \<Rightarrow> jsnum \<Rightarrow> jsnum" where
  "jmax NaN _ = NaN"
| "jmax _ NaN = NaN"
| "jmax a b = (if jle a b then b else a)"

section \<open>JavaScript values\<close>

text \<open>
  The values the runtime checks of the code distinguish: \<^verbatim>\<open>typeof v === 'number'\<close> holds of
  \<open>Num\<close>, \<^verbatim>\<open>typeof v === 'string'\<close> of \<open>Str\<close>, and \<open>Undefined\<close> and \<open>Null\<close> are neither.
\<close>

datatype jsval = Undefined | Null | Num jsnum | Str string

text \<open>An argument declared \<^verbatim>\<open>number[]\<close>; \<^verbatim>\<open>Array.isArray\<close> fails on \<open>NotArray\<close>.\<close>

datatype jsarg = NotArray | Array "jsval list"

text \<open>
  \<^verbatim>\<open>numbers.filter(num => typeof num === 'number' && isFinite(num))\<close>: the finite numbers
  of an array, in order.
\<close>

fun validNumbersOf :: "jsval list \<Rightarrow> jsnum list" where
  "validNumbersOf [] = []"
| "validNumbersOf (Num n # vs) = (if isFinite n then n # validNumbersOf vs else validNumbersOf vs)"
| "validNumbersOf (_ # vs) = validNumbersOf vs"

section \<open>Scalar statistics\<close>

text \<open>\<^verbatim>\<open>calculateAverage\<close>; the sum is \<^verbatim>\<open>reduce((acc, num) => acc + num, 0)\<close>.\<close>

definition calculateAverage :: "jsarg \<Rightarrow> jsnum" where
  "calculateAverage arg =
     (case arg of
        NotArray \<Rightarrow> Fin 0
      | Array numbers \<Rightarrow>
          if length numbers = 0 then Fin 0
          else let validNumbers = validNumbersOf numbers
               in if length validNumbers = 0 then Fin 0
                  else let sum = foldl jadd (Fin 0) validNumbers
                       in jdiv sum (Fin (of_nat (length validNumbers))))"

definition calculateStandardDeviation :: "jsarg \<Rightarrow> jsnum" where
  "calculateStandardDeviation arg =
     (case arg of
        NotArray \<Rightarrow> Fin 0
      | Array numbers \<Rightarrow>
          if length numbers = 0 then Fin 0
          else let validNumbers = validNumbersOf numbers
               in if length validNumbers = 0 then Fin 0
                  else let mean = calculateAverage (Array (map Num validNumbers));
                           squaredDifferences = map (\<lambda>num. jpow2 (jsub num mean)) validNumbers;
                           variance = calculateAverage (Array (map Num squaredDifferences))
                       in jsqrt variance)"

section \<open>Pearson correlation\<close>

text \<open>
  The first loop of \<^verbatim>\<open>calculatePearsonCorrelation\<close> runs over the indices of \<open>x\<close>, which has the
  length of \<open>y\<close> there, and keeps the pairs of finite numbers.
\<close>

fun validPairsOf :: "jsval list \<Rightarrow> jsval list \<Rightarrow> (jsnum \<times> jsnum) list" where
  "validPairsOf (Num a # xs) (Num b # ys) =
     (if isFinite a \<and> isFinite b then (a, b) # validPairsOf xs ys else validPairsOf xs ys)"
| "validPairsOf (_ # xs) (_ # ys) = validPairsOf xs ys"
| "validPairsOf _ _ = []"

text \<open>
  The second loop updates \<^verbatim>\<open>numerator\<close>, \<^verbatim>\<open>sumSquaredX\<close> and \<^verbatim>\<open>sumSquaredY\<close> once for every
  valid pair.
\<close>

record pearsonSums =
  numerator :: jsnum
  sumSquaredX :: jsnum
  sumSquaredY :: jsnum

definition accumulate :: "jsnum \<Rightarrow> jsnum \<Rightarrow> pearsonSums \<Rightarrow> jsnum \<times> jsnum \<Rightarrow> pearsonSums" where
  "accumulate meanX meanY s p =
     (let diffX = jsub (fst p) meanX;
          diffY = jsub (snd p) meanY
      in \<lparr>numerator = jadd (numerator s) (jmul diffX diffY),
          sumSquaredX = jadd (sumSquaredX s) (jmul diffX diffX),
          sumSquaredY = jadd (sumSquaredY s) (jmul diffY diffY)\<rparr>)"

definition calculatePearsonCorrelation :: "jsarg \<Rightarrow> jsarg \<Rightarrow> jsnum" where
  "calculatePearsonCorrelation argx argy =
     (case (argx, argy) of
        (Array x, Array y) \<Rightarrow>
          if length x \<noteq> length y \<or> length x = 0 then Fin 0
          else let validPairs = validPairsOf x y
               in if length validPairs < 2 then Fin 0
                  else let validX = map fst validPairs;
                           validY = map snd validPairs;
                           meanX = calculateAverage (Array (map Num validX));
                           meanY = calculateAverage (Array (map Num validY));
                           s = foldl (accumulate meanX meanY)
                                 \<lparr>numerator = Fin 0, sumSquaredX = Fin 0, sumSquaredY = Fin 0\<rparr>
                                 validPairs;
                           denominator = jsqrt (jmul (sumSquaredX s) (sumSquaredY s))
                       in if denominator = Fin 0 then Fin 0
                          else let correlation = jdiv (numerator s) denominator
                               in jmax (Fin (- 1)) (jmin (Fin 1) correlation)
      | _ \<Rightarrow> Fin 0)"

section \<open>Input data\<close>

text \<open>
  A JavaScript object is an association list in the order of \<^verbatim>\<open>Object.keys\<close>; its keys
  are distinct. For \<^verbatim>\<open>alignStockData\<close> a series is an array of the declared type or is
  missing: \<^verbatim>\<open>obj[key]\<close> is \<^verbatim>\<open>undefined\<close> for a missing key, which is \<open>None\<close>, as is a value
  that is \<^verbatim>\<open>null\<close> or \<^verbatim>\<open>undefined\<close>.
\<close>

definition getSeries :: "(string \<times> 'a option) list \<Rightarrow> string \<Rightarrow> 'a option" where
  "getSeries data ticker = (case map_of data ticker of None \<Rightarrow> None | Some series \<Rightarrow> series)"

text \<open>A point of a price series: the object \<^verbatim>\<open>{timestamp, price}\<close>.\<close>

record ('t, 'p) pricePoint =
  timestamp :: 't
  price :: 'p

text \<open>
  \<^verbatim>\<open>alignStockData\<close> reads its points without any runtime check, so it is modelled on the
  declared type \<^verbatim>\<open>StockPrice\<close>: a string and a number. \<^verbatim>\<open>calculateCorrelationMatrix\<close> checks
  at run time that a point is not null or undefined, that its timestamp is a string and that
  its price is a number, so its points are modelled with arbitrary field values and may be
  missing (\<open>None\<close>).
\<close>

type_synonym StockPrice = "(string, jsnum) pricePoint"

type_synonym rawPoint = "(jsval, jsval) pricePoint option"

text \<open>
  The value of a ticker in the argument of \<^verbatim>\<open>calculateCorrelationMatrix\<close>, as the runtime
  checks of that function see it: an array of points; a falsy value (\<^verbatim>\<open>null\<close>,
  \<^verbatim>\<open>undefined\<close>, also the value of a missing key), at which the guards
  \<^verbatim>\<open>data[ticker] && ...\<close> stop; or a truthy value that is not an array (an object, a number, a
  string), which passes \<^verbatim>\<open>data[ticker] &&\<close>, fails \<^verbatim>\<open>Array.isArray\<close> and has no method
  \<^verbatim>\<open>some\<close> or \<^verbatim>\<open>find\<close>.
\<close>

datatype rawSeries = Nullish | NonArray | Points "rawPoint list"

definition getRaw :: "(string \<times> rawSeries) list \<Rightarrow> string \<Rightarrow> rawSeries" where
  "getRaw data ticker = (case map_of data ticker of None \<Rightarrow> Nullish | Some series \<Rightarrow> series)"

text \<open>A \<^verbatim>\<open>Set\<close> of strings, in insertion order.\<close>

definition setAdd :: "'a list \<Rightarrow> 'a \<Rightarrow> 'a list" where
  "setAdd s x = (if x \<in> set s then s else s @ [x])"

section \<open>Union alignment\<close>

text \<open>
  \<^verbatim>\<open>alignStockData\<close>. The default \<^verbatim>\<open>sort()\<close> orders strings by their code units; strings
  are byte strings here, in lexicographic order.
\<close>

definition unionTimestamps :: "(string \<times> StockPrice list option) list \<Rightarrow> string list" where
  "unionTimestamps stocksData =
     foldl (\<lambda>allTimestamps ticker.
              case getSeries stocksData ticker of
                None \<Rightarrow> allTimestamps
              | Some points \<Rightarrow> foldl (\<lambda>s point. setAdd s (timestamp point)) allTimestamps points)
       [] (map fst stocksData)"

fun pushPrices :: "StockPrice list \<Rightarrow> string list \<Rightarrow> jsnum list" where
  "pushPrices stockData [] = []"
| "pushPrices stockData (ts # rest) =
     (case find (\<lambda>point. timestamp point = ts) stockData of
        Some dataPoint \<Rightarrow> price dataPoint # pushPrices stockData rest
      | None \<Rightarrow> pushPrices stockData rest)"

text \<open>\<^verbatim>\<open>stocksData[ticker] || []\<close>\<close>

definition stockDataOf :: "(string \<times> StockPrice list option) list \<Rightarrow> string \<Rightarrow> StockPrice list" where
  "stockDataOf stocksData ticker =
     (case getSeries stocksData ticker of None \<Rightarrow> [] | Some points \<Rightarrow> points)"

definition alignStockData ::
  "(string \<times> StockPrice list option) list \<Rightarrow> (string \<times> jsnum list) list" where
  "alignStockData stocksData =
     (let tickers = map fst stocksData
      in if length tickers = 0 then []
         else let sortedTimestamps = sort (unionTimestamps stocksData);
                  alignedData =
                    map (\<lambda>ticker.
                           (ticker, pushPrices (stockDataOf stocksData ticker) sortedTimestamps))
                      tickers
              in filter (\<lambda>(ticker, prices). \<not> length prices < 2) alignedData)"

section \<open>Correlation matrix\<close>

datatype jserror = TypeError

record CorrelationMatrix =
  matrix :: "jsnum list list"
  standardDeviations :: "(string \<times> jsnum) list"
  dataPoints :: nat

definition emptyResult :: CorrelationMatrix where
  "emptyResult = \<lparr>matrix = [], standardDeviations = [], dataPoints = 0\<rparr>"

text \<open>
  Lines 151 to 160: the string timestamps of all points of all tickers whose value is an
  array (\<^verbatim>\<open>data[ticker] && Array.isArray(data[ticker])\<close>).
\<close>

definition addTimestamps :: "string list \<Rightarrow> rawPoint list \<Rightarrow> string list" where
  "addTimestamps allTimestamps points =
     foldl (\<lambda>s point.
              case point of
                None \<Rightarrow> s
              | Some p \<Rightarrow> (case timestamp p of Str ts \<Rightarrow> setAdd s ts | _ \<Rightarrow> s))
       allTimestamps points"

definition allTimestampsOf :: "(string \<times> rawSeries) list \<Rightarrow> string list" where
  "allTimestampsOf data =
     foldl (\<lambda>allTimestamps ticker.
              case getRaw data ticker of
                Points points \<Rightarrow> addTimestamps allTimestamps points
              | _ \<Rightarrow> allTimestamps)
       [] (map fst data)"

text \<open>
  Lines 162 to 169. The predicate given to \<^verbatim>\<open>some\<close>: the point exists, has this timestamp
  and a finite number as its price.
\<close>

definition hasFinitePrice :: "string \<Rightarrow> rawPoint \<Rightarrow> bool" where
  "hasFinitePrice ts point =
     (case point of
        None \<Rightarrow> False
      | Some p \<Rightarrow> timestamp p = Str ts \<and> (case price p of Num n \<Rightarrow> isFinite n | _ \<Rightarrow> False))"

text \<open>
  The callback of \<^verbatim>\<open>every\<close>, \<^verbatim>\<open>data[ticker] && data[ticker].some(...)\<close>, has no test
  \<^verbatim>\<open>Array.isArray\<close>: on a truthy value that is not an array, \<^verbatim>\<open>data[ticker].some\<close> is
  \<^verbatim>\<open>undefined\<close> and the call throws a TypeError.
\<close>

definition tickerHas :: "(string \<times> rawSeries) list \<Rightarrow> string \<Rightarrow> string \<Rightarrow> jserror + bool" where
  "tickerHas data ts ticker =
     (case getRaw data ticker of
        Nullish \<Rightarrow> Inr False
      | NonArray \<Rightarrow> Inl TypeError
      | Points points \<Rightarrow> Inr (list_ex (hasFinitePrice ts) points))"

text \<open>
  \<^verbatim>\<open>every\<close> calls its callback on the elements in order and stops at the first falsy
  result; \<^verbatim>\<open>filter\<close> calls its callback on every element in order. An exception thrown by
  a callback ends both.
\<close>

fun everyE :: "('a \<Rightarrow> jserror + bool) \<Rightarrow> 'a list \<Rightarrow> jserror + bool" where
  "everyE f [] = Inr True"
| "everyE f (x # xs) =
     (case f x of
        Inl e \<Rightarrow> Inl e
      | Inr b \<Rightarrow> if b then everyE f xs else Inr False)"

fun filterE :: "('a \<Rightarrow> jserror + bool) \<Rightarrow> 'a list \<Rightarrow> jserror + 'a list" where
  "filterE f [] = Inr []"
| "filterE f (x # xs) =
     (case f x of
        Inl e \<Rightarrow> Inl e
      | Inr b \<Rightarrow>
          (case filterE f xs of
             Inl e \<Rightarrow> Inl e
           | Inr ys \<Rightarrow> Inr (if b then x # ys else ys)))"

definition everyTickerHas :: "(string \<times> rawSeries) list \<Rightarrow> string \<Rightarrow> jserror + bool" where
  "everyTickerHas data ts = everyE (tickerHas data ts) (map fst data)"

definition commonTimestampsOf :: "(string \<times> rawSeries) list \<Rightarrow> jserror + string list" where
  "commonTimestampsOf data =
     (case filterE (everyTickerHas data) (allTimestampsOf data) of
        Inl e \<Rightarrow> Inl e
      | Inr common \<Rightarrow> Inr (sort common))"

text \<open>
  Lines 180 to 186. \<^verbatim>\<open>data[ticker].find(...)\<close> throws a TypeError when \<^verbatim>\<open>data[ticker]\<close> is
  not an array; the predicate given to \<^verbatim>\<open>find\<close> asks for the timestamp only.
\<close>

definition hasTimestamp :: "string \<Rightarrow> rawPoint \<Rightarrow> bool" where
  "hasTimestamp ts p = (case p of None \<Rightarrow> False | Some q \<Rightarrow> timestamp q = Str ts)"

text \<open>\<^verbatim>\<open>point ? point.price : 0\<close>, for the result \<open>point\<close> of \<^verbatim>\<open>find\<close>.\<close>

definition foundPrice :: "rawPoint list \<Rightarrow> string \<Rightarrow> jsval" where
  "foundPrice points ts =
     (case find (hasTimestamp ts) points of
        Some (Some point) \<Rightarrow> price point
      | _ \<Rightarrow> Num (Fin 0))"

definition lookupPrice :: "rawSeries \<Rightarrow> string \<Rightarrow> jserror + jsval" where
  "lookupPrice series ts =
     (case series of
        Points points \<Rightarrow> Inr (foundPrice points ts)
      | _ \<Rightarrow> Inl TypeError)"

fun mapE :: "('a \<Rightarrow> 'e + 'b) \<Rightarrow> 'a list \<Rightarrow> 'e + 'b list" where
  "mapE f [] = Inr []"
| "mapE f (x # xs) =
     (case f x of
        Inl e \<Rightarrow> Inl e
      | Inr y \<Rightarrow> (case mapE f xs of Inl e \<Rightarrow> Inl e | Inr ys \<Rightarrow> Inr (y # ys)))"

definition alignedVector :: "rawSeries \<Rightarrow> string list \<Rightarrow> jserror + jsnum list" where
  "alignedVector series commonTimestamps =
     (case mapE (lookupPrice series) commonTimestamps of
        Inl e \<Rightarrow> Inl e
      | Inr prices \<Rightarrow> Inr (validNumbersOf prices))"

definition alignedDataOf ::
  "(string \<times> rawSeries) list \<Rightarrow> string list \<Rightarrow> jserror + (string \<times> jsnum list) list" where
  "alignedDataOf data commonTimestamps =
     mapE (\<lambda>ticker.
             case alignedVector (getRaw data ticker) commonTimestamps of
               Inl e \<Rightarrow> Inl e
             | Inr prices \<Rightarrow> Inr (ticker, prices))
       (map fst data)"

text \<open>\<^verbatim>\<open>alignedData[ticker]\<close>, as an argument of the statistics.\<close>

definition getAligned :: "(string \<times> jsnum list) list \<Rightarrow> string \<Rightarrow> jsarg" where
  "getAligned alignedData ticker =
     (case map_of alignedData ticker of None \<Rightarrow> NotArray | Some prices \<Rightarrow> Array (map Num prices))"

text \<open>Lines 193 to 195.\<close>

definition buildStandardDeviations ::
  "string list \<Rightarrow> (string \<times> jsnum list) list \<Rightarrow> (string \<times> jsnum) list" where
  "buildStandardDeviations tickers alignedData =
     map (\<lambda>ticker. (ticker, calculateStandardDeviation (getAligned alignedData ticker))) tickers"

text \<open>Lines 198 to 210: the two nested loops over the indices of \<^verbatim>\<open>tickers\<close>.\<close>

definition buildMatrix :: "string list \<Rightarrow> (string \<times> jsnum list) list \<Rightarrow> jsnum list list" where
  "buildMatrix tickers alignedData =
     map (\<lambda>i. map (\<lambda>j. if i = j then Fin 1
                        else calculatePearsonCorrelation
                               (getAligned alignedData (tickers ! i))
                               (getAligned alignedData (tickers ! j)))
                [0..<length tickers])
       [0..<length tickers]"

definition calculateCorrelationMatrix ::
  "(string \<times> rawSeries) list \<Rightarrow> jserror + CorrelationMatrix" where
  "calculateCorrelationMatrix data =
     (let tickers = map fst data
      in if length tickers = 0 then Inr emptyResult
         else (case commonTimestampsOf data of
                 Inl e \<Rightarrow> Inl e
               | Inr commonTimestamps \<Rightarrow>
                   if length commonTimestamps < 2 then Inr emptyResult
                   else (case alignedDataOf data commonTimestamps of
                           Inl e \<Rightarrow> Inl e
                         | Inr alignedData \<Rightarrow>
                             Inr \<lparr>matrix = buildMatrix tickers alignedData,
                                  standardDeviations =
                                    buildStandardDeviations tickers alignedData,
                                  dataPoints = length commonTimestamps\<rparr>)))"

section \<open>Notions of the specification\<close>

text \<open>The string timestamps of the points of one ticker.\<close>

definition spec_tickerTimestamps :: "(string \<times> rawSeries) list \<Rightarrow> string \<Rightarrow> string list" where
  "spec_tickerTimestamps data ticker =
     (case getRaw data ticker of Points points \<Rightarrow> addTimestamps [] points | _ \<Rightarrow> [])"

text \<open>The points of a series that is an array.\<close>

definition pointsOf :: "rawSeries \<Rightarrow> rawPoint list" where
  "pointsOf series = (case series of Points points \<Rightarrow> points | _ \<Rightarrow> [])"

text \<open>Every series is an array or is falsy.\<close>

definition spec_noNonArray :: "(string \<times> rawSeries) list \<Rightarrow> bool" where
  "spec_noNonArray data = list_all (\<lambda>ticker. getRaw data ticker \<noteq> NonArray) (map fst data)"

text \<open>The string timestamps of a series, one for every point that has one.\<close>

definition stringTimestamps :: "rawPoint list \<Rightarrow> string list" where
  "stringTimestamps points =
     concat (map (\<lambda>point. case point of
                             None \<Rightarrow> []
                           | Some p \<Rightarrow> (case timestamp p of Str ts \<Rightarrow> [ts] | _ \<Rightarrow> []))
               points)"

text \<open>
  A common timestamp, in the words of the specification: a timestamp at which every ticker
  has a point with a finite numeric price.
\<close>

definition spec_hasFinitePointAt :: "(string \<times> rawSeries) list \<Rightarrow> string \<Rightarrow> string \<Rightarrow> bool" where
  "spec_hasFinitePointAt data ticker ts =
     (\<exists>points p n. getRaw data ticker = Points points \<and> Some p \<in> set points \<and>
        timestamp p = Str ts \<and> price p = Num n \<and> isFinite n)"

definition spec_commonTimestamps :: "(string \<times> rawSeries) list \<Rightarrow> string set" where
  "spec_commonTimestamps data = {ts. \<forall>ticker \<in> set (map fst data). spec_hasFinitePointAt data ticker ts}"

text \<open>
  A ticker has no timestamp overlap with the rest: none of its timestamps is a timestamp of
  another ticker.
\<close>

definition spec_noOverlap :: "(string \<times> rawSeries) list \<Rightarrow> string \<Rightarrow> bool" where
  "spec_noOverlap data ticker =
     list_all (\<lambda>ts. list_all (\<lambda>other. other = ticker \<or> ts \<notin> set (spec_tickerTimestamps data other))
                       (map fst data))
       (spec_tickerTimestamps data ticker)"


text \<open>
  The union of the timestamps of all tickers, and the vector of one ticker over a grid of
  timestamps, in the words of the specification: one entry for every timestamp of the grid
  at which the ticker has a point, holding the price of the ticker's first point there.
\<close>

definition spec_unionTimestamps :: "(string \<times> StockPrice list option) list \<Rightarrow> string set" where
  "spec_unionTimestamps stocksData =
     (\<Union>ticker \<in> set (map fst stocksData). timestamp ` set (stockDataOf stocksData ticker))"

definition spec_firstPrice :: "StockPrice list \<Rightarrow> string \<Rightarrow> jsnum" where
  "spec_firstPrice points ts = price (hd (filter (\<lambda>point. timestamp point = ts) points))"

definition spec_vector :: "StockPrice list \<Rightarrow> string list \<Rightarrow> jsnum list" where
  "spec_vector points grid =
     map (spec_firstPrice points) (filter (\<lambda>ts. ts \<in> timestamp ` set points) grid)"

text \<open>
  The cleaning of the scalar statistics (an entry is kept when it is a finite number), the
  mean dividing by the number of entries, and the population standard deviation
  \<open>sqrt(mean((x - mean(x))^2))\<close>, computed in binary64 arithmetic with the sum taken from
  left to right.
\<close>

definition spec_isFiniteNumber :: "jsval \<Rightarrow> bool" where
  "spec_isFiniteNumber v = (case v of Num n \<Rightarrow> isFinite n | _ \<Rightarrow> False)"

definition spec_mean :: "jsnum list \<Rightarrow> jsnum" where
  "spec_mean xs = jdiv (foldl jadd (Fin 0) xs) (Fin (of_nat (length xs)))"

definition spec_squaredDeviations :: "jsnum list \<Rightarrow> jsnum list" where
  "spec_squaredDeviations xs = map (\<lambda>x. jpow2 (jsub x (spec_mean xs))) xs"

definition spec_populationSD :: "jsnum list \<Rightarrow> jsnum" where
  "spec_populationSD xs = jsqrt (spec_mean (spec_squaredDeviations xs))"

text \<open>
  The correlation of a list of valid pairs, in the words of the specification:
  \<open>\<Sigma>(dx\<cdot>dy) / sqrt(\<Sigma>dx\<^sup>2 \<cdot> \<Sigma>dy\<^sup>2)\<close> clamped to \<open>[-1, 1]\<close>, and 0 when the denominator is 0.
\<close>

definition spec_pearson :: "(jsnum \<times> jsnum) list \<Rightarrow> jsnum" where
  "spec_pearson pairs =
     (let mx = spec_mean (map fst pairs);
          my = spec_mean (map snd pairs);
          num = foldl jadd (Fin 0) (map (\<lambda>p. jmul (jsub (fst p) mx) (jsub (snd p) my)) pairs);
          sxx = foldl jadd (Fin 0) (map (\<lambda>p. jmul (jsub (fst p) mx) (jsub (fst p) mx)) pairs);
          syy = foldl jadd (Fin 0) (map (\<lambda>p. jmul (jsub (snd p) my) (jsub (snd p) my)) pairs);
          den = jsqrt (jmul sxx syy)
      in if den = Fin 0 then Fin 0 else jmax (Fin (- 1)) (jmin (Fin 1) (jdiv num den)))"

section \<open>Example data\<close>

definition mkPoint :: "string \<Rightarrow> jsnum \<Rightarrow> rawPoint" where
  "mkPoint ts p = Some \<lparr>timestamp = Str ts, price = Num p\<rparr>"

text \<open>Two tickers with the same two timestamps.\<close>

definition exPair :: "(string \<times> rawSeries) list" where
  "exPair =
     [(''AAPL'', Points [mkPoint ''t1'' (Fin 1), mkPoint ''t2'' (Fin 3)]),
      (''GOOGL'', Points [mkPoint ''t2'' (Fin 6), mkPoint ''t1'' (Fin 2)])]"


text \<open>
  The first ticker has two points at the timestamp \<open>t1\<close>, and the price of the first of them
  is NaN.
\<close>

definition exDuplicate :: "(string \<times> rawSeries) list" where
  "exDuplicate =
     [(''AAPL'', Points [mkPoint ''t1'' NaN, mkPoint ''t1'' (Fin 5), mkPoint ''t2'' (Fin 3)]),
      (''GOOGL'', Points [mkPoint ''t1'' (Fin 1), mkPoint ''t2'' (Fin 3)])]"

text \<open>
  Three tickers: the first and the third have no timestamp in common, and each of them
  shares a timestamp with the second.
\<close>

definition exChain :: "(string \<times> rawSeries) list" where
  "exChain =
     [(''AAPL'', Points [mkPoint ''t1'' (Fin 1), mkPoint ''t2'' (Fin 3)]),
      (''GOOGL'', Points [mkPoint ''t1'' (Fin 2), mkPoint ''t2'' (Fin 6), mkPoint ''t3'' (Fin 4)]),
      (''MSFT'', Points [mkPoint ''t3'' (Fin 5)])]"

text \<open>The value of the first ticker is an object that is not an array, \<^verbatim>\<open>{}\<close>.\<close>

definition exNonArray :: "(string \<times> rawSeries) list" where
  "exNonArray =
     [(''AAPL'', NonArray),
      (''GOOGL'', Points [mkPoint ''t1'' (Fin 1), mkPoint ''t2'' (Fin 3)])]"

text \<open>Three tickers for the union alignment; the second has a single point.\<close>

definition exUnion :: "(string \<times> StockPrice list option) list" where
  "exUnion =
     [(''AAPL'', Some [\<lparr>timestamp = ''t2'', price = Fin 5\<rparr>, \<lparr>timestamp = ''t1'', price = Fin 4\<rparr>]),
      (''GOOGL'', Some [\<lparr>timestamp = ''t1'', price = Fin 7\<rparr>]),
      (''MSFT'', Some [\<lparr>timestamp = ''t3'', price = Fin 1\<rparr>, \<lparr>timestamp = ''t1'', price = Fin 2\<rparr>,
                       \<lparr>timestamp = ''t3'', price = Fin 9\<rparr>])]"

text \<open>A series of the declared type whose first price is NaN.\<close>

definition exUnionNaN :: "(string \<times> StockPrice list option) list" where
  "exUnionNaN =
     [(''AAPL'', Some [\<lparr>timestamp = ''t1'', price = NaN\<rparr>, \<lparr>timestamp = ''t2'', price = Fin 1\<rparr>])]"

text \<open>The vector of the standard deviation check, and a vector with entries to be dropped.\<close>

definition sdExample :: "jsval list" where
  "sdExample = map (\<lambda>x. Num (Fin x)) [2, 4, 4, 4, 5, 5, 7, 9]"

definition sdMixed :: "jsval list" where
  "sdMixed = [Num (Fin 1), Undefined, Num NaN, Str ''n/a'', Num (Fin 3), Num PInf]"

text \<open>
  \<open>2 ^ 600\<close> is a binary64 value (about \<open>4.1e180\<close>); its square is beyond the largest one.
\<close>

definition huge :: real where "huge = 2 ^ 600"

definition hugeVector :: "jsval list" where
  "hugeVector = [Num (Fin huge), Num (Fin (- huge))]"

section \<open>Rounding\<close>

lemma roundEven_of_int: "roundEven (of_int k) = k"
  by (simp add: roundEven_def)

lemma ulp_pos: "0 < ulp r"
  by (simp add: ulp_def)

text \<open>A multiple of the spacing is not changed by rounding, unless it overflows.\<close>

lemma rnd_multiple:
  assumes r0: "r \<noteq> 0" and rep: "r / ulp r = of_int k"
  shows "rnd r = (if 2 ^ 1024 \<le> \<bar>r\<bar> then (if 0 < r then PInf else NInf) else Fin r)"
proof -
  have u: "ulp r \<noteq> 0" using ulp_pos [of r] by simp
  have "roundEven (r / ulp r) = k" by (simp add: rep roundEven_of_int)
  then have "of_int (roundEven (r / ulp r)) * ulp r = (r / ulp r) * ulp r"
    by (simp add: rep)
  also have "\<dots> = r" using u by simp
  finally show ?thesis using r0 by (simp add: rnd_def Let_def)
qed

lemma powr_int_diff:
  assumes "x \<le> k"
  shows "(2::real) powr of_int k / 2 powr of_int x = 2 ^ nat (k - x)"
proof -
  have "(2::real) powr of_int k / 2 powr of_int x = 2 powr (of_int k - of_int x)"
    by (simp add: powr_diff)
  also have "of_int k - of_int x = real (nat (k - x))" using assms by simp
  also have "(2::real) powr real (nat (k - x)) = 2 ^ nat (k - x)"
    by (rule powr_realpow) simp
  finally show ?thesis .
qed

lemma rnd_scaled:
  assumes r: "r = of_int m * 2 powr of_int k" and r0: "r \<noteq> 0"
    and k: "max \<lfloor>log 2 \<bar>r\<bar>\<rfloor> (- 1022) - 52 \<le> k"
  shows "rnd r = (if 2 ^ 1024 \<le> \<bar>r\<bar> then (if 0 < r then PInf else NInf) else Fin r)"
proof -
  define x where "x = max \<lfloor>log 2 \<bar>r\<bar>\<rfloor> (- 1022) - 52"
  have u: "ulp r = 2 powr of_int x" by (simp add: ulp_def x_def)
  have "r / ulp r = r / 2 powr of_int x" by (simp only: u)
  also have "\<dots> = of_int m * (2 powr of_int k / 2 powr of_int x)"
    using r by simp
  also have "\<dots> = of_int (m * 2 ^ nat (k - x))"
    using k by (simp add: powr_int_diff x_def [symmetric])
  finally have "r / ulp r = of_int (m * 2 ^ nat (k - x))" .
  with r0 show ?thesis by (rule rnd_multiple)
qed

lemma floor_log2_int:
  assumes "n \<noteq> 0" "\<bar>n\<bar> < 2 ^ 53"
  shows "0 \<le> \<lfloor>log 2 \<bar>real_of_int n\<bar>\<rfloor> \<and> \<lfloor>log 2 \<bar>real_of_int n\<bar>\<rfloor> \<le> 52"
proof -
  have a: "1 \<le> \<bar>real_of_int n\<bar>" using assms(1) by simp
  then have "0 \<le> log 2 \<bar>real_of_int n\<bar>" by simp
  then have A: "0 \<le> \<lfloor>log 2 \<bar>real_of_int n\<bar>\<rfloor>" by simp
  have "\<bar>real_of_int n\<bar> < 2 ^ 53" using assms(2)
    by (metis of_int_less_numeral_power_cancel_iff of_int_abs)
  then have "\<bar>real_of_int n\<bar> < 2 powr 53" by simp
  then have "log 2 \<bar>real_of_int n\<bar> < 53" using a
    by (subst log_less_iff) simp_all
  then have "\<lfloor>log 2 \<bar>real_of_int n\<bar>\<rfloor> \<le> 52" by linarith
  with A show ?thesis by simp
qed

text \<open>Integers below \<open>2 ^ 53\<close> in magnitude are binary64 values.\<close>

lemma rnd_of_int:
  assumes "\<bar>n\<bar> < 2 ^ 53"
  shows "rnd (of_int n) = Fin (of_int n)"
proof (cases "n = 0")
  case True
  then show ?thesis by (simp add: rnd_def)
next
  case False
  have e: "0 \<le> \<lfloor>log 2 \<bar>real_of_int n\<bar>\<rfloor> \<and> \<lfloor>log 2 \<bar>real_of_int n\<bar>\<rfloor> \<le> 52"
    using floor_log2_int [OF False assms] .
  have "\<bar>real_of_int n\<bar> < 2 ^ 53" using assms
    by (metis of_int_less_numeral_power_cancel_iff of_int_abs)
  then have small: "\<not> 2 ^ 1024 \<le> \<bar>real_of_int n\<bar>" by simp
  have "rnd (real_of_int n) =
      (if 2 ^ 1024 \<le> \<bar>real_of_int n\<bar> then (if 0 < real_of_int n then PInf else NInf)
       else Fin (real_of_int n))"
  proof (rule rnd_scaled [where m = n and k = 0])
    show "real_of_int n = of_int n * 2 powr of_int 0" by simp
    show "real_of_int n \<noteq> 0" using False by simp
    show "max \<lfloor>log 2 \<bar>real_of_int n\<bar>\<rfloor> (- 1022) - 52 \<le> 0" using e by simp
  qed
  with small show ?thesis by simp
qed

lemma rnd_numeral: "(numeral w :: int) < 2 ^ 53 \<Longrightarrow> rnd (numeral w) = Fin (numeral w)"
  using rnd_of_int [of "numeral w"] by simp

lemma rnd_neg_numeral:
  "(numeral w :: int) < 2 ^ 53 \<Longrightarrow> rnd (- numeral w) = Fin (- numeral w)"
  using rnd_of_int [of "- numeral w"] by simp

lemma rnd_0: "rnd 0 = Fin 0"
  by (simp add: rnd_def)

lemma rnd_1: "rnd 1 = Fin 1"
  using rnd_of_int [of 1] by simp

lemma rnd_neg_1: "rnd (- 1) = Fin (- 1)"
  using rnd_of_int [of "- 1"] by simp

lemmas rnd_small = rnd_numeral rnd_neg_numeral rnd_0 rnd_1 rnd_neg_1

section \<open>The finite numbers of an array\<close>

lemma validNumbersOf_clean: "map Num (validNumbersOf vs) = filter spec_isFiniteNumber vs"
  by (induction vs rule: validNumbersOf.induct) (simp_all add: spec_isFiniteNumber_def)

lemma validNumbersOf_Num: "validNumbersOf (map Num xs) = filter isFinite xs"
  by (induction xs) simp_all

lemma validNumbersOf_all_finite: "list_all isFinite (validNumbersOf vs)"
  by (induction vs rule: validNumbersOf.induct) simp_all

lemma validNumbersOf_length: "length (validNumbersOf vs) \<le> length vs"
  by (induction vs rule: validNumbersOf.induct) auto

lemma validNumbersOf_finite: "n \<in> set (validNumbersOf vs) \<Longrightarrow> isFinite n"
  by (induction vs rule: validNumbersOf.induct) (auto split: if_splits)

lemma validNumbersOf_keeps_all:
  "list_all spec_isFiniteNumber vs \<Longrightarrow> length (validNumbersOf vs) = length vs"
  by (induction vs rule: validNumbersOf.induct) (simp_all add: spec_isFiniteNumber_def)

section \<open>Properties of the Pearson correlation\<close>

lemma jmul_commute: "jmul a b = jmul b a"
  by (cases a; cases b) (simp_all add: mult.commute)

lemma validPairsOf_swap: "validPairsOf y x = map prod.swap (validPairsOf x y)"
  by (induction x y rule: validPairsOf.induct) auto

lemma accumulate_swap:
  assumes "numerator s' = numerator s" "sumSquaredX s' = sumSquaredY s"
    "sumSquaredY s' = sumSquaredX s"
  shows "numerator (foldl (accumulate my mx) s' (map prod.swap ps))
           = numerator (foldl (accumulate mx my) s ps)
       \<and> sumSquaredX (foldl (accumulate my mx) s' (map prod.swap ps))
           = sumSquaredY (foldl (accumulate mx my) s ps)
       \<and> sumSquaredY (foldl (accumulate my mx) s' (map prod.swap ps))
           = sumSquaredX (foldl (accumulate mx my) s ps)"
  using assms
proof (induction ps arbitrary: s s')
  case Nil
  then show ?case by simp
next
  case (Cons p ps)
  show ?case
    unfolding list.map foldl_Cons
    by (rule Cons.IH) (simp_all add: accumulate_def Let_def Cons.prems jmul_commute)
qed

lemma pearson_commute: "calculatePearsonCorrelation x y = calculatePearsonCorrelation y x"
proof (cases x)
  case NotArray
  then show ?thesis by (cases y) (simp_all add: calculatePearsonCorrelation_def)
next
  case (Array xs)
  note X = this
  show ?thesis
  proof (cases y)
    case NotArray
    then show ?thesis using X by (simp add: calculatePearsonCorrelation_def)
  next
    case (Array ys)
    let ?s0 = "\<lparr>numerator = Fin 0, sumSquaredX = Fin 0, sumSquaredY = Fin 0\<rparr>"
    let ?ps = "validPairsOf xs ys"
    let ?mx = "calculateAverage (Array (map (\<lambda>x. Num (fst x)) ?ps))"
    let ?my = "calculateAverage (Array (map (\<lambda>x. Num (snd x)) ?ps))"
    have sw: "validPairsOf ys xs = map prod.swap ?ps" by (rule validPairsOf_swap)
    have acc: "numerator (foldl (accumulate ?my ?mx) ?s0 (map prod.swap ?ps))
           = numerator (foldl (accumulate ?mx ?my) ?s0 ?ps)
       \<and> sumSquaredX (foldl (accumulate ?my ?mx) ?s0 (map prod.swap ?ps))
           = sumSquaredY (foldl (accumulate ?mx ?my) ?s0 ?ps)
       \<and> sumSquaredY (foldl (accumulate ?my ?mx) ?s0 (map prod.swap ?ps))
           = sumSquaredX (foldl (accumulate ?mx ?my) ?s0 ?ps)"
      by (rule accumulate_swap) simp_all
    show ?thesis
      unfolding X Array calculatePearsonCorrelation_def
      by (simp add: sw acc Let_def o_def jmul_commute eq_commute [of "length xs" "length ys"])
  qed
qed

text \<open>
  C10: when the two arrays differ in length, or one of them is empty, the guard of line 5
  returns 0; the model has no error result for this function, nothing is thrown.
\<close>

theorem pearson_unequal_or_empty:
  "length x \<noteq> length y \<or> x = [] \<or> y = [] \<Longrightarrow>
     calculatePearsonCorrelation (Array x) (Array y) = Fin 0"
  by (auto simp: calculatePearsonCorrelation_def)

theorem pearson_unequal_or_empty_witness:
  "length [Num (Fin 1), Num (Fin 2)] \<noteq> length [Num (Fin 5)]
   \<and> calculatePearsonCorrelation (Array [Num (Fin 1), Num (Fin 2)]) (Array [Num (Fin 5)]) = Fin 0"
  using pearson_unequal_or_empty [of "[Num (Fin 1), Num (Fin 2)]" "[Num (Fin 5)]"] by simp

section \<open>Evaluation of the two-ticker example\<close>

lemma sqrt_16: "sqrt 16 = 4"
proof -
  have "sqrt 16 = sqrt (4\<^sup>2)" by simp
  also have "\<dots> = 4" by (simp only: real_sqrt_abs abs_numeral)
  finally show ?thesis .
qed

lemma exPair_common: "commonTimestampsOf exPair = Inr [''t1'', ''t2'']"
  by code_simp

lemma exPair_aligned:
  "alignedDataOf exPair [''t1'', ''t2''] =
     Inr [(''AAPL'', [Fin 1, Fin 3]), (''GOOGL'', [Fin 2, Fin 6])]"
  by code_simp

lemma pearson_13_26:
  "calculatePearsonCorrelation (Array [Num (Fin 1), Num (Fin 3)]) (Array [Num (Fin 2), Num (Fin 6)])
     = Fin 1"
  by (simp add: calculatePearsonCorrelation_def calculateAverage_def accumulate_def jsub_def
      rnd_small sqrt_16)

lemma pearson_26_13:
  "calculatePearsonCorrelation (Array [Num (Fin 2), Num (Fin 6)]) (Array [Num (Fin 1), Num (Fin 3)])
     = Fin 1"
  by (simp add: calculatePearsonCorrelation_def calculateAverage_def accumulate_def jsub_def
      rnd_small sqrt_16)

lemma sd_13: "calculateStandardDeviation (Array [Num (Fin 1), Num (Fin 3)]) = Fin 1"
  by (simp add: calculateStandardDeviation_def calculateAverage_def jsub_def rnd_small)

lemma sd_26: "calculateStandardDeviation (Array [Num (Fin 2), Num (Fin 6)]) = Fin 2"
  by (simp add: calculateStandardDeviation_def calculateAverage_def jsub_def rnd_small)

lemma exPair_result:
  "calculateCorrelationMatrix exPair =
     Inr \<lparr>matrix = [[Fin 1, Fin 1], [Fin 1, Fin 1]],
          standardDeviations = [(''AAPL'', Fin 1), (''GOOGL'', Fin 2)],
          dataPoints = 2\<rparr>"
proof -
  have t: "map fst exPair = [''AAPL'', ''GOOGL'']" by (simp add: exPair_def)
  have u: "[0..<2] = [0, 1]" by (simp add: upt_rec)
  show ?thesis
    unfolding calculateCorrelationMatrix_def Let_def t exPair_common
    by (simp add: exPair_aligned buildMatrix_def buildStandardDeviations_def getAligned_def u
        pearson_13_26 pearson_26_13 sd_13 sd_26)
qed

section \<open>Properties of the matrix\<close>

lemma buildMatrix_length: "length (buildMatrix tickers ad) = length tickers"
  by (simp add: buildMatrix_def)


lemma buildMatrix_entry:
  assumes "i < length tickers" "j < length tickers"
  shows "buildMatrix tickers ad ! i ! j =
    (if i = j then Fin 1
     else calculatePearsonCorrelation (getAligned ad (tickers ! i)) (getAligned ad (tickers ! j)))"
  using assms by (simp add: buildMatrix_def)

text \<open>A result is the empty one or is built from the aligned data of all tickers.\<close>

lemma ccm_Inr:
  assumes "calculateCorrelationMatrix data = Inr r"
  shows "r = emptyResult \<or>
    (\<exists>cts ad. commonTimestampsOf data = Inr cts \<and> alignedDataOf data cts = Inr ad \<and>
       2 \<le> length cts \<and>
       r = \<lparr>matrix = buildMatrix (map fst data) ad,
            standardDeviations = buildStandardDeviations (map fst data) ad,
            dataPoints = length cts\<rparr>)"
  using assms
  by (auto simp: calculateCorrelationMatrix_def Let_def split: if_splits sum.splits)

text \<open>An exception can only come from the search of the common timestamps.\<close>

lemma ccm_Inl:
  assumes "calculateCorrelationMatrix data = Inl e"
  shows "commonTimestampsOf data = Inl e \<or>
    (\<exists>cts. commonTimestampsOf data = Inr cts \<and> 2 \<le> length cts \<and> alignedDataOf data cts = Inl e)"
  using assms
  by (auto simp: calculateCorrelationMatrix_def Let_def emptyResult_def
      split: if_splits sum.splits)


text \<open>
  C5: the matrix is symmetric. The entries \<open>(i, j)\<close> and \<open>(j, i)\<close> come from two calls of
  \<open>calculatePearsonCorrelation\<close> with the arguments exchanged; they are the same number
  because the products of the loop are commutative. Equality is identity of the binary64
  value: two NaN entries are equal here, while \<^verbatim>\<open>NaN == NaN\<close> is false in JavaScript.
\<close>

theorem matrix_symmetric:
  assumes "calculateCorrelationMatrix data = Inr r"
    and "i < length (matrix r)" and "j < length (matrix r)"
  shows "matrix r ! i ! j = matrix r ! j ! i"
proof -
  from ccm_Inr [OF assms(1)] consider "r = emptyResult"
    | ad where "matrix r = buildMatrix (map fst data) ad" by auto
  then show ?thesis
  proof cases
    case 1
    then show ?thesis using assms(2) by (simp add: emptyResult_def)
  next
    case 2
    then have "i < length (map fst data)" "j < length (map fst data)"
      using assms(2,3) by (simp_all add: buildMatrix_length)
    then show ?thesis
      unfolding 2
      by (simp add: buildMatrix_entry pearson_commute [of "getAligned ad (map fst data ! i)"]
          del: length_map nth_map)
  qed
qed

theorem matrix_symmetric_witness:
  "calculateCorrelationMatrix exPair =
     Inr \<lparr>matrix = [[Fin 1, Fin 1], [Fin 1, Fin 1]],
          standardDeviations = [(''AAPL'', Fin 1), (''GOOGL'', Fin 2)],
          dataPoints = 2\<rparr>
   \<and> (0::nat) < length [[Fin 1, Fin 1], [Fin 1, Fin 1]]
   \<and> (1::nat) < length [[Fin 1, Fin 1], [Fin 1, Fin 1]]
   \<and> [[Fin 1, Fin 1], [Fin 1, Fin 1]] ! 0 ! 1 = [[Fin 1, Fin 1], [Fin 1, Fin 1]] ! 1 ! 0"
  using matrix_symmetric [OF exPair_result, of 0 1] exPair_result by simp

text \<open>
  C6: every diagonal entry of a returned matrix is the constant 1, assigned in the branch
  \<^verbatim>\<open>i === j\<close> of the inner loop and not computed by \<open>calculatePearsonCorrelation\<close>.
\<close>

theorem matrix_diagonal:
  assumes "calculateCorrelationMatrix data = Inr r" and "i < length (matrix r)"
  shows "matrix r ! i ! i = Fin 1"
proof -
  from ccm_Inr [OF assms(1)] consider "r = emptyResult"
    | ad where "matrix r = buildMatrix (map fst data) ad" by auto
  then show ?thesis
  proof cases
    case 1
    then show ?thesis using assms(2) by (simp add: emptyResult_def)
  next
    case 2
    then have "i < length (map fst data)"
      using assms(2) by (simp_all add: buildMatrix_length)
    then show ?thesis
      unfolding 2 by (simp add: buildMatrix_entry del: length_map nth_map)
  qed
qed

theorem matrix_diagonal_witness:
  "calculateCorrelationMatrix exPair =
     Inr \<lparr>matrix = [[Fin 1, Fin 1], [Fin 1, Fin 1]],
          standardDeviations = [(''AAPL'', Fin 1), (''GOOGL'', Fin 2)],
          dataPoints = 2\<rparr>
   \<and> (1::nat) < length [[Fin 1, Fin 1], [Fin 1, Fin 1]]
   \<and> [[Fin 1, Fin 1], [Fin 1, Fin 1]] ! 1 ! 1 = Fin 1"
  using matrix_diagonal [OF exPair_result, of 1] exPair_result by simp

section \<open>Common timestamps\<close>

lemma set_setAdd: "set (setAdd s x) = insert x (set s)"
  by (auto simp: setAdd_def)

lemma distinct_setAdd: "distinct s \<Longrightarrow> distinct (setAdd s x)"
  by (simp add: setAdd_def)

lemma set_addTimestamps:
  "set (addTimestamps s points) = set s \<union> {ts. \<exists>p. Some p \<in> set points \<and> timestamp p = Str ts}"
  unfolding addTimestamps_def
proof (induction points arbitrary: s)
  case Nil
  then show ?case by simp
next
  case (Cons a points)
  show ?case
    by (cases a) (auto simp: Cons.IH set_setAdd split: jsval.splits)
qed

lemma set_timestamps_of_ticker:
  "set (spec_tickerTimestamps data ticker) =
     {ts. \<exists>points p. getRaw data ticker = Points points \<and> Some p \<in> set points \<and>
            timestamp p = Str ts}"
  by (cases "getRaw data ticker") (simp_all add: spec_tickerTimestamps_def set_addTimestamps)

lemma distinct_addTimestamps: "distinct s \<Longrightarrow> distinct (addTimestamps s points)"
  unfolding addTimestamps_def
  by (induction points arbitrary: s) (auto simp: distinct_setAdd split: option.splits jsval.splits)

lemma set_foldl_tickers:
  "set (foldl (\<lambda>allTimestamps ticker.
              case getRaw data ticker of
                Points points \<Rightarrow> addTimestamps allTimestamps points
              | _ \<Rightarrow> allTimestamps) s ks)
   = set s \<union> (\<Union>ticker \<in> set ks. set (spec_tickerTimestamps data ticker))"
proof (induction ks arbitrary: s)
  case Nil
  then show ?case by simp
next
  case (Cons k ks)
  show ?case
    by (cases "getRaw data k") (auto simp: Cons.IH set_addTimestamps spec_tickerTimestamps_def)
qed

lemma distinct_foldl_tickers:
  "distinct s \<Longrightarrow> distinct (foldl (\<lambda>allTimestamps ticker.
              case getRaw data ticker of
                Points points \<Rightarrow> addTimestamps allTimestamps points
              | _ \<Rightarrow> allTimestamps) s ks)"
  by (induction ks arbitrary: s) (auto simp: distinct_addTimestamps split: rawSeries.splits)

lemma set_allTimestampsOf:
  "set (allTimestampsOf data) = (\<Union>ticker \<in> set (map fst data). set (spec_tickerTimestamps data ticker))"
  unfolding allTimestampsOf_def by (simp only: set_foldl_tickers) simp

lemma distinct_allTimestampsOf: "distinct (allTimestampsOf data)"
  unfolding allTimestampsOf_def by (rule distinct_foldl_tickers) simp

lemma hasFinitePrice_iff:
  "hasFinitePrice ts point \<longleftrightarrow>
     (\<exists>p n. point = Some p \<and> timestamp p = Str ts \<and> price p = Num n \<and> isFinite n)"
proof (cases point)
  case None
  then show ?thesis by (simp add: hasFinitePrice_def)
next
  case (Some p)
  then show ?thesis by (cases "price p") (simp_all add: hasFinitePrice_def)
qed

lemma list_ex_hasFinitePrice:
  "list_ex (hasFinitePrice ts) points \<longleftrightarrow>
     (\<exists>p n. Some p \<in> set points \<and> timestamp p = Str ts \<and> price p = Num n \<and> isFinite n)"
  unfolding list_ex_iff hasFinitePrice_iff by blast

lemma tickerHas_iff:
  "tickerHas data ts ticker = Inr True \<longleftrightarrow> spec_hasFinitePointAt data ticker ts"
  by (cases "getRaw data ticker")
    (simp_all add: tickerHas_def spec_hasFinitePointAt_def list_ex_hasFinitePrice)

lemma everyE_True_iff: "everyE f xs = Inr True \<longleftrightarrow> (\<forall>x \<in> set xs. f x = Inr True)"
  by (induction xs) (auto split: sum.splits)

lemma everyTickerHas_iff:
  "everyTickerHas data ts = Inr True \<longleftrightarrow>
     (\<forall>ticker \<in> set (map fst data). spec_hasFinitePointAt data ticker ts)"
  unfolding everyTickerHas_def everyE_True_iff tickerHas_iff ..

lemma filterE_Inr: "filterE f xs = Inr ys \<Longrightarrow> ys = filter (\<lambda>x. f x = Inr True) xs"
  by (induction xs arbitrary: ys) (auto split: sum.splits)

lemma commonTimestampsOf_Inr:
  assumes "commonTimestampsOf data = Inr cts"
  shows "cts = sort (filter (\<lambda>ts. everyTickerHas data ts = Inr True) (allTimestampsOf data))"
  using assms filterE_Inr [of "everyTickerHas data" "allTimestampsOf data"]
  by (auto simp: commonTimestampsOf_def split: sum.splits)

lemma finitePoint_is_timestamp:
  "spec_hasFinitePointAt data ticker ts \<Longrightarrow> ts \<in> set (spec_tickerTimestamps data ticker)"
  by (auto simp: spec_hasFinitePointAt_def set_timestamps_of_ticker)

lemma common_series:
  assumes "commonTimestampsOf data = Inr cts" "ts \<in> set cts" "ticker \<in> set (map fst data)"
  shows "spec_hasFinitePointAt data ticker ts"
  using assms(2,3) unfolding commonTimestampsOf_Inr [OF assms(1)]
  by (auto simp: everyTickerHas_iff)

lemma set_commonTimestampsOf:
  assumes "commonTimestampsOf data = Inr cts" "data \<noteq> []"
  shows "set cts = spec_commonTimestamps data"
proof -
  obtain k where k: "k \<in> set (map fst data)" using assms(2) by (cases data) auto
  have "spec_commonTimestamps data \<subseteq> set (allTimestampsOf data)"
    unfolding set_allTimestampsOf spec_commonTimestamps_def
    using k finitePoint_is_timestamp by blast
  then show ?thesis
    unfolding commonTimestampsOf_Inr [OF assms(1)]
    by (auto simp: everyTickerHas_iff spec_commonTimestamps_def)
qed

lemma distinct_commonTimestampsOf:
  assumes "commonTimestampsOf data = Inr cts"
  shows "distinct cts"
  unfolding commonTimestampsOf_Inr [OF assms] by (simp add: distinct_allTimestampsOf)

lemma length_commonTimestampsOf:
  assumes "commonTimestampsOf data = Inr cts" "data \<noteq> []"
  shows "length cts = card (spec_commonTimestamps data)"
  using distinct_card [OF distinct_commonTimestampsOf [OF assms(1)]]
  by (simp add: set_commonTimestampsOf [OF assms])





section \<open>The aligned vectors\<close>

lemma mapE_Inr: "(\<And>x. x \<in> set xs \<Longrightarrow> f x = Inr (g x)) \<Longrightarrow> mapE f xs = Inr (map g xs)"
  by (induction xs) simp_all

lemma alignedVector_Points:
  "alignedVector (Points points) cts = Inr (validNumbersOf (map (foundPrice points) cts))"
  by (simp add: alignedVector_def lookupPrice_def mapE_Inr [where g = "foundPrice points"])

text \<open>
  Once a common timestamp exists, the value of every ticker is an array, and the lookups of
  lines 180 to 186 throw nothing.
\<close>

lemma alignedDataOf_total:
  assumes c: "commonTimestampsOf data = Inr cts" and ne: "cts \<noteq> []"
  shows "alignedDataOf data cts =
     Inr (map (\<lambda>ticker. (ticker, validNumbersOf (map (foundPrice (pointsOf (getRaw data ticker))) cts)))
            (map fst data))"
proof -
  obtain ts where ts: "ts \<in> set cts" using ne by (cases cts) auto
  show ?thesis
    unfolding alignedDataOf_def
  proof (rule mapE_Inr)
    fix ticker assume "ticker \<in> set (map fst data)"
    from common_series [OF c ts this] obtain points where "getRaw data ticker = Points points"
      by (auto simp: spec_hasFinitePointAt_def)
    then show "(case alignedVector (getRaw data ticker) cts of
                  Inl e \<Rightarrow> Inl e | Inr prices \<Rightarrow> Inr (ticker, prices)) =
          Inr (ticker, validNumbersOf (map (foundPrice (pointsOf (getRaw data ticker))) cts))"
      by (simp add: alignedVector_Points pointsOf_def)
  qed
qed

lemma ccm_returns:
  assumes "commonTimestampsOf data = Inr cts"
  shows "\<exists>r. calculateCorrelationMatrix data = Inr r"
proof (cases "length cts < 2")
  case True
  then show ?thesis using assms by (simp add: calculateCorrelationMatrix_def Let_def)
next
  case False
  then have "cts \<noteq> []" by auto
  from alignedDataOf_total [OF assms this] show ?thesis
    using assms by (simp add: calculateCorrelationMatrix_def Let_def)
qed

lemma ccm_throws_iff:
  "calculateCorrelationMatrix data = Inl e \<longleftrightarrow> data \<noteq> [] \<and> commonTimestampsOf data = Inl e"
proof
  assume a: "calculateCorrelationMatrix data = Inl e"
  then have "data \<noteq> []" by (auto simp: calculateCorrelationMatrix_def)
  moreover have "commonTimestampsOf data = Inl e"
  proof (cases "commonTimestampsOf data")
    case (Inl e')
    with a \<open>data \<noteq> []\<close> show ?thesis by (simp add: calculateCorrelationMatrix_def)
  next
    case (Inr cts)
    from ccm_returns [OF this] a show ?thesis by simp
  qed
  ultimately show "data \<noteq> [] \<and> commonTimestampsOf data = Inl e" by simp
next
  assume "data \<noteq> [] \<and> commonTimestampsOf data = Inl e"
  then show "calculateCorrelationMatrix data = Inl e"
    by (simp add: calculateCorrelationMatrix_def)
qed



section \<open>Results of the correlation matrix\<close>

text \<open>
  Whenever a result is returned, it is the empty one for an input without tickers or with
  fewer than two common timestamps, and otherwise its \<open>dataPoints\<close> is the number of common
  timestamps.
\<close>

lemma ccm_result_empty_or_dataPoints:
  assumes "calculateCorrelationMatrix data = Inr r"
  shows "if data = [] \<or> card (spec_commonTimestamps data) < 2 then r = emptyResult
         else dataPoints r = card (spec_commonTimestamps data)"
proof (cases "data = []")
  case True
  then show ?thesis using assms by (simp add: calculateCorrelationMatrix_def)
next
  case False
  obtain cts where c: "commonTimestampsOf data = Inr cts"
  proof (cases "commonTimestampsOf data")
    case (Inl e)
    with False have "calculateCorrelationMatrix data = Inl e" by (simp add: ccm_throws_iff)
    with assms show ?thesis by simp
  next
    case (Inr cts)
    then show ?thesis by (rule that)
  qed
  note len = length_commonTimestampsOf [OF c False]
  show ?thesis
  proof (cases "length cts < 2")
    case True
    then show ?thesis using assms c len False
      by (simp add: calculateCorrelationMatrix_def Let_def)
  next
    case False
    then have "cts \<noteq> []" by auto
    from alignedDataOf_total [OF c this] show ?thesis
      using assms False \<open>data \<noteq> []\<close> len c
      by (auto simp: calculateCorrelationMatrix_def Let_def)
  qed
qed

lemma exNonArray_no_common: "spec_commonTimestamps exNonArray = {}"
proof -
  have "getRaw exNonArray ''AAPL'' = NonArray" by (simp add: getRaw_def exNonArray_def)
  then have "\<not> spec_hasFinitePointAt exNonArray ''AAPL'' ts" for ts
    by (simp add: spec_hasFinitePointAt_def)
  moreover have "''AAPL'' \<in> set (map fst exNonArray)" by (simp add: exNonArray_def)
  ultimately show ?thesis unfolding spec_commonTimestamps_def by blast
qed

lemma exNonArray_all: "allTimestampsOf exNonArray = [''t1'', ''t2'']"
  by code_simp

lemma exNonArray_common: "commonTimestampsOf exNonArray = Inl TypeError"
  by code_simp

text \<open>
  C2 says that no exception is ever raised and that the empty result is returned when
  fewer than two common timestamps exist. Where the value of a ticker is a truthy value
  that is not an array, line 153 skips it (\<^verbatim>\<open>Array.isArray\<close>), but line 164 calls
  \<^verbatim>\<open>data[ticker].some\<close> on it: with no common timestamp at all, the call throws a TypeError.
\<close>

theorem ccm_throws_on_non_array:
  "getRaw exNonArray ''AAPL'' = NonArray \<and>
   allTimestampsOf exNonArray = [''t1'', ''t2''] \<and>
   card (spec_commonTimestamps exNonArray) = 0 \<and>
   calculateCorrelationMatrix exNonArray = Inl TypeError"
proof -
  have "exNonArray \<noteq> []" by (simp add: exNonArray_def)
  then have "calculateCorrelationMatrix exNonArray = Inl TypeError"
    by (simp add: ccm_throws_iff exNonArray_common)
  moreover have "getRaw exNonArray ''AAPL'' = NonArray" by (simp add: getRaw_def exNonArray_def)
  ultimately show ?thesis by (simp add: exNonArray_all exNonArray_no_common)
qed

theorem ccm_throws_on_non_array_witness:
  "''AAPL'' \<in> set (map fst exNonArray) \<and>
   \<not> spec_hasFinitePointAt exNonArray ''AAPL'' ''t1'' \<and>
   ''t1'' \<notin> spec_commonTimestamps exNonArray \<and>
   calculateCorrelationMatrix exNonArray = Inl TypeError"
proof -
  note th = ccm_throws_on_non_array
  have a: "\<not> spec_hasFinitePointAt exNonArray ''AAPL'' ''t1''"
    using th by (simp add: spec_hasFinitePointAt_def)
  have m: "''AAPL'' \<in> set (map fst exNonArray)" by (simp add: exNonArray_def)
  from a m have "''t1'' \<notin> spec_commonTimestamps exNonArray"
    unfolding spec_commonTimestamps_def by blast
  with a m th show ?thesis by blast
qed










lemma exChain_no_single: "\<not> spec_noOverlap exChain ''AAPL'' \<and> \<not> spec_noOverlap exChain ''GOOGL'' \<and>
   \<not> spec_noOverlap exChain ''MSFT''"
  by code_simp


lemma exPair_arrays: "spec_noNonArray exPair"
  by code_simp


section \<open>The lookup of step 3\<close>

text \<open>
  At a common timestamp \<^verbatim>\<open>find\<close> always returns a point of every ticker, so the branch that
  substitutes 0 is not taken.
\<close>

lemma find_hasTimestamp:
  assumes "Some p \<in> set points" "timestamp p = Str ts"
  shows "\<exists>q. find (hasTimestamp ts) points = Some (Some q) \<and> timestamp q = Str ts"
proof -
  have "hasTimestamp ts (Some p)" using assms(2) by (simp add: hasTimestamp_def)
  with assms(1) obtain x where x: "find (hasTimestamp ts) points = Some x"
    by (cases "find (hasTimestamp ts) points") (auto simp: find_None_iff)
  then have "hasTimestamp ts x" by (auto simp: find_Some_iff)
  then obtain q where "x = Some q" "timestamp q = Str ts"
    by (cases x) (auto simp: hasTimestamp_def)
  with x show ?thesis by blast
qed

lemma lookup_succeeds:
  assumes "commonTimestampsOf data = Inr cts" "ts \<in> set cts" "ticker \<in> set (map fst data)"
  shows "\<exists>points q. getRaw data ticker = Points points \<and>
           find (hasTimestamp ts) points = Some (Some q) \<and> timestamp q = Str ts"
  using common_series [OF assms] find_hasTimestamp
  unfolding spec_hasFinitePointAt_def by blast

lemma stringTimestamps_Cons:
  "stringTimestamps (point # points) =
     (case point of None \<Rightarrow> [] | Some p \<Rightarrow> (case timestamp p of Str ts \<Rightarrow> [ts] | _ \<Rightarrow> []))
     @ stringTimestamps points"
  by (simp add: stringTimestamps_def)

lemma mem_stringTimestamps:
  "Some p \<in> set points \<Longrightarrow> timestamp p = Str ts \<Longrightarrow> ts \<in> set (stringTimestamps points)"
  by (force simp: stringTimestamps_def)

lemma find_unique_timestamp:
  assumes "distinct (stringTimestamps points)" "Some p \<in> set points" "timestamp p = Str ts"
  shows "find (hasTimestamp ts) points = Some (Some p)"
  using assms
proof (induction points)
  case Nil
  then show ?case by simp
next
  case (Cons a points)
  show ?case
  proof (cases "hasTimestamp ts a")
    case True
    then obtain q where q: "a = Some q" "timestamp q = Str ts"
      by (cases a) (auto simp: hasTimestamp_def)
    have "Some p \<notin> set points"
    proof
      assume "Some p \<in> set points"
      then have "ts \<in> set (stringTimestamps points)"
        using Cons.prems(3) by (rule mem_stringTimestamps)
      then show False using Cons.prems(1) q by (simp add: stringTimestamps_Cons)
    qed
    then have "a = Some p" using Cons.prems(2) by simp
    then show ?thesis using True by simp
  next
    case False
    then have "a \<noteq> Some p" using Cons.prems(3) by (auto simp: hasTimestamp_def)
    then have mem: "Some p \<in> set points" using Cons.prems(2) by simp
    have "distinct (stringTimestamps points)"
      using Cons.prems(1) by (simp add: stringTimestamps_Cons)
    from Cons.IH [OF this mem Cons.prems(3)] False show ?thesis by simp
  qed
qed

text \<open>
  Where no series has two points with the same timestamp, the point found is the one with
  the finite price, nothing is filtered out, and every vector has one entry for every common
  timestamp.
\<close>

lemma foundPrice_finite:
  assumes d: "distinct (stringTimestamps points)"
    and s: "getRaw data ticker = Points points"
    and c: "commonTimestampsOf data = Inr cts"
    and ts: "ts \<in> set cts" and t: "ticker \<in> set (map fst data)"
  shows "spec_isFiniteNumber (foundPrice points ts)"
proof -
  from common_series [OF c ts t] s obtain p n where
    p: "Some p \<in> set points" "timestamp p = Str ts" "price p = Num n" "isFinite n"
    by (auto simp: spec_hasFinitePointAt_def)
  from find_unique_timestamp [OF d p(1,2)] p(3,4) show ?thesis
    by (simp add: foundPrice_def spec_isFiniteNumber_def)
qed

lemma aligned_length_exact:
  assumes c: "commonTimestampsOf data = Inr cts" and ne: "cts \<noteq> []"
    and d: "\<And>ticker points. getRaw data ticker = Points points \<Longrightarrow> distinct (stringTimestamps points)"
    and ad: "alignedDataOf data cts = Inr ad"
    and v: "(ticker, prices) \<in> set ad"
  shows "length prices = length cts"
proof -
  from alignedDataOf_total [OF c ne] ad v
  have t: "ticker \<in> set (map fst data)"
    and pv: "prices = validNumbersOf (map (foundPrice (pointsOf (getRaw data ticker))) cts)"
    by auto
  obtain ts where "ts \<in> set cts" using ne by (cases cts) auto
  from common_series [OF c this t] obtain points where s: "getRaw data ticker = Points points"
    by (auto simp: spec_hasFinitePointAt_def)
  have "list_all spec_isFiniteNumber (map (foundPrice points) cts)"
    using foundPrice_finite [OF d [OF s] s c _ t] by (simp add: list_all_iff)
  then show ?thesis using pv s by (simp add: validNumbersOf_keeps_all pointsOf_def)
qed

text \<open>
  In general a vector is not longer than the list of common timestamps and holds finite
  numbers only.
\<close>

lemma aligned_length_bounded:
  assumes c: "commonTimestampsOf data = Inr cts" and ne: "cts \<noteq> []"
    and ad: "alignedDataOf data cts = Inr ad"
    and v: "(ticker, prices) \<in> set ad"
  shows "length prices \<le> length cts \<and> list_all isFinite prices"
proof -
  from alignedDataOf_total [OF c ne] ad v
  have "prices = validNumbersOf (map (foundPrice (pointsOf (getRaw data ticker))) cts)"
    by auto
  then show ?thesis
    using validNumbersOf_length [of "map (foundPrice (pointsOf (getRaw data ticker))) cts"]
    by (simp add: validNumbersOf_all_finite)
qed

lemma exDuplicate_common: "commonTimestampsOf exDuplicate = Inr [''t1'', ''t2'']"
  by code_simp

lemma exDuplicate_aligned:
  "alignedDataOf exDuplicate [''t1'', ''t2''] =
     Inr [(''AAPL'', [Fin 3]), (''GOOGL'', [Fin 1, Fin 3])]"
  by code_simp

lemma sd_3: "calculateStandardDeviation (Array [Num (Fin 3)]) = Fin 0"
  by (simp add: calculateStandardDeviation_def calculateAverage_def jsub_def rnd_small)

text \<open>
  C3 fails on the code where a ticker has two points at one common timestamp and the first
  of them has no finite price: \<^verbatim>\<open>some\<close> (line 164) accepts the timestamp because of the
  second point, \<^verbatim>\<open>find\<close> (line 183) returns the first one, and the filter of line 185 drops
  its price. The vector of \<open>AAPL\<close> has one entry for two common timestamps, and its
  correlation with \<open>GOOGL\<close> is 0 by the length guard of \<open>calculatePearsonCorrelation\<close>.
\<close>

theorem duplicate_timestamp_shortens_vector:
  "commonTimestampsOf exDuplicate = Inr [''t1'', ''t2''] \<and>
   alignedDataOf exDuplicate [''t1'', ''t2''] =
     Inr [(''AAPL'', [Fin 3]), (''GOOGL'', [Fin 1, Fin 3])] \<and>
   calculateCorrelationMatrix exDuplicate =
     Inr \<lparr>matrix = [[Fin 1, Fin 0], [Fin 0, Fin 1]],
          standardDeviations = [(''AAPL'', Fin 0), (''GOOGL'', Fin 1)],
          dataPoints = 2\<rparr>"
proof -
  have t: "map fst exDuplicate = [''AAPL'', ''GOOGL'']" by (simp add: exDuplicate_def)
  have u: "[0..<2] = [0, 1]" by (simp add: upt_rec)
  have "calculateCorrelationMatrix exDuplicate =
     Inr \<lparr>matrix = [[Fin 1, Fin 0], [Fin 0, Fin 1]],
          standardDeviations = [(''AAPL'', Fin 0), (''GOOGL'', Fin 1)],
          dataPoints = 2\<rparr>"
    unfolding calculateCorrelationMatrix_def Let_def t exDuplicate_common
    by (simp add: exDuplicate_aligned buildMatrix_def buildStandardDeviations_def getAligned_def u
        calculatePearsonCorrelation_def sd_3 sd_13)
  then show ?thesis by (simp add: exDuplicate_common exDuplicate_aligned)
qed

section \<open>Overflow\<close>

lemma huge_pos: "0 < huge" by (simp add: huge_def)

lemma log_huge: "\<lfloor>log 2 \<bar>huge\<bar>\<rfloor> = 600"
proof -
  have "log 2 \<bar>huge\<bar> = log 2 (2 ^ 600)" by (simp add: huge_def)
  also have "\<dots> = 600" by (subst log_nat_power) simp_all
  finally show ?thesis by simp
qed

lemma huge_small: "\<bar>huge\<bar> < 2 ^ 1024"
  unfolding huge_def by (simp del: power_numeral)

lemma rnd_huge: "rnd huge = Fin huge"
proof -
  have "rnd huge = (if 2 ^ 1024 \<le> \<bar>huge\<bar> then (if 0 < huge then PInf else NInf) else Fin huge)"
  proof (rule rnd_scaled [where m = 1 and k = 600])
    have "(2::real) powr of_int 600 = 2 ^ 600" by (simp del: power_numeral)
    then show "huge = of_int 1 * 2 powr of_int 600" by (simp add: huge_def del: power_numeral)
    show "huge \<noteq> 0" using huge_pos by simp
    show "max \<lfloor>log 2 \<bar>huge\<bar>\<rfloor> (- 1022) - 52 \<le> 600" unfolding log_huge by simp
  qed
  then show ?thesis using huge_small by simp
qed

lemma rnd_neg_huge: "rnd (- huge) = Fin (- huge)"
proof -
  have "rnd (- huge) = (if 2 ^ 1024 \<le> \<bar>- huge\<bar> then (if 0 < - huge then PInf else NInf) else Fin (- huge))"
  proof (rule rnd_scaled [where m = "- 1" and k = 600])
    have "(2::real) powr of_int 600 = 2 ^ 600" by (simp del: power_numeral)
    then show "- huge = of_int (- 1) * 2 powr of_int 600" by (simp add: huge_def del: power_numeral)
    show "- huge \<noteq> 0" using huge_pos by simp
    show "max \<lfloor>log 2 \<bar>- huge\<bar>\<rfloor> (- 1022) - 52 \<le> 600" unfolding abs_minus_cancel log_huge by simp
  qed
  then show ?thesis using huge_small by simp
qed

lemma rnd_huge_squared: "rnd (huge * huge) = PInf"
proof -
  have sq: "huge * huge = 2 ^ 1200" by (simp add: huge_def power_add [symmetric] del: power_numeral)
  have lg: "\<lfloor>log 2 \<bar>huge * huge\<bar>\<rfloor> = 1200"
  proof -
    have "log 2 \<bar>huge * huge\<bar> = log 2 (2 ^ 1200)" by (simp only: sq) simp
    also have "\<dots> = 1200" by (subst log_nat_power) simp_all
    finally show ?thesis by simp
  qed
  have big: "(2::real) ^ 1024 \<le> \<bar>huge * huge\<bar>"
    unfolding sq by (simp del: power_numeral)
  have "rnd (huge * huge) = (if 2 ^ 1024 \<le> \<bar>huge * huge\<bar> then (if 0 < huge * huge then PInf else NInf) else Fin (huge * huge))"
  proof (rule rnd_scaled [where m = 1 and k = 1200])
    have "(2::real) powr of_int 1200 = 2 ^ 1200" by (simp del: power_numeral)
    then show "huge * huge = of_int 1 * 2 powr of_int 1200" by (simp add: sq del: power_numeral)
    show "huge * huge \<noteq> 0" using huge_pos by simp
    show "max \<lfloor>log 2 \<bar>huge * huge\<bar>\<rfloor> (- 1022) - 52 \<le> 1200" unfolding lg by simp
  qed
  then show ?thesis using big huge_pos by simp
qed

lemmas rnd_huge_simps = rnd_huge rnd_neg_huge rnd_huge_squared rnd_0

section \<open>The range of the Pearson correlation\<close>

text \<open>
  The last line of \<open>calculatePearsonCorrelation\<close> clamps with \<^verbatim>\<open>Math.max\<close> and \<^verbatim>\<open>Math.min\<close>,
  which let NaN through: a result is NaN or lies between \<open>-1\<close> and \<open>1\<close>.
\<close>

lemma clamp_range:
  "jmax (Fin (- 1)) (jmin (Fin 1) c) = NaN \<or>
   (\<exists>v. jmax (Fin (- 1)) (jmin (Fin 1) c) = Fin v \<and> - 1 \<le> v \<and> v \<le> 1)"
  by (cases c) auto

lemma pearson_range_or_NaN:
  "calculatePearsonCorrelation x y = NaN \<or>
   (\<exists>v. calculatePearsonCorrelation x y = Fin v \<and> - 1 \<le> v \<and> v \<le> 1)"
proof (cases x)
  case NotArray
  then show ?thesis by (simp add: calculatePearsonCorrelation_def)
next
  case (Array xs)
  note X = this
  show ?thesis
  proof (cases y)
    case NotArray
    then show ?thesis using X by (simp add: calculatePearsonCorrelation_def)
  next
    case (Array ys)
    show ?thesis
      unfolding X Array calculatePearsonCorrelation_def Let_def
      using clamp_range by (simp del: jmax.simps jmin.simps)
  qed
qed

text \<open>
  C4 says that the result always lies in \<open>[-1, 1]\<close>. On two equal vectors of the finite
  numbers \<open>2 ^ 600\<close> and \<open>- (2 ^ 600)\<close> every product of the loop overflows to Infinity,
  the quotient is \<^verbatim>\<open>Infinity / Infinity\<close>, and the result is NaN.
\<close>

theorem pearson_overflow_NaN:
  "calculatePearsonCorrelation (Array hugeVector) (Array hugeVector) = NaN"
  by (simp add: calculatePearsonCorrelation_def calculateAverage_def accumulate_def jsub_def
      hugeVector_def rnd_huge_simps infOfSign_def)

theorem pearson_overflow_NaN_witness:
  "length hugeVector = 2 \<and>
   list_all spec_isFiniteNumber hugeVector \<and>
   calculatePearsonCorrelation (Array hugeVector) (Array hugeVector) = NaN"
  using pearson_overflow_NaN by (simp add: hugeVector_def spec_isFiniteNumber_def)

section \<open>The clamped quotient\<close>

lemma calculateAverage_finite:
  assumes "xs \<noteq> []" "list_all isFinite xs"
  shows "calculateAverage (Array (map Num xs)) = spec_mean xs"
proof -
  have "filter isFinite xs = xs" using assms(2) by (simp add: list_all_iff)
  then show ?thesis using assms(1)
    by (simp add: calculateAverage_def validNumbersOf_Num spec_mean_def)
qed

text \<open>
  On arrays of equal length the function keeps the pairs of finite numbers, returns 0 when
  fewer than two are left, and the clamped quotient of the specification otherwise.
\<close>

lemma validPairsOf_finite:
  "p \<in> set (validPairsOf x y) \<Longrightarrow> isFinite (fst p) \<and> isFinite (snd p)"
  by (induction x y rule: validPairsOf.induct) (auto split: if_splits)

lemma validPairsOf_zip:
  "length x = length y \<Longrightarrow>
   map (\<lambda>p. (Num (fst p), Num (snd p))) (validPairsOf x y) =
     filter (\<lambda>p. spec_isFiniteNumber (fst p) \<and> spec_isFiniteNumber (snd p)) (zip x y)"
proof (induction x y rule: list_induct2)
  case Nil
  then show ?case by simp
next
  case (Cons a x b y)
  then show ?case
    by (cases a; cases b) (simp_all add: spec_isFiniteNumber_def)
qed

lemma foldl_accumulate:
  "numerator (foldl (accumulate mx my) s ps) =
     foldl jadd (numerator s) (map (\<lambda>p. jmul (jsub (fst p) mx) (jsub (snd p) my)) ps) \<and>
   sumSquaredX (foldl (accumulate mx my) s ps) =
     foldl jadd (sumSquaredX s) (map (\<lambda>p. jmul (jsub (fst p) mx) (jsub (fst p) mx)) ps) \<and>
   sumSquaredY (foldl (accumulate mx my) s ps) =
     foldl jadd (sumSquaredY s) (map (\<lambda>p. jmul (jsub (snd p) my) (jsub (snd p) my)) ps)"
  by (induction ps arbitrary: s) (simp_all add: accumulate_def Let_def)

lemma pearson_formula:
  assumes "length x = length y"
  shows "calculatePearsonCorrelation (Array x) (Array y) =
     (if length (validPairsOf x y) < 2 then Fin 0 else spec_pearson (validPairsOf x y))"
proof (cases "length (validPairsOf x y) < 2")
  case True
  then show ?thesis using assms by (simp add: calculatePearsonCorrelation_def)
next
  case False
  let ?ps = "validPairsOf x y"
  have ne: "?ps \<noteq> []" using False by auto
  then have x0: "length x \<noteq> 0" by (cases x) auto
  have fx: "list_all isFinite (map fst ?ps)" and fy: "list_all isFinite (map snd ?ps)"
    using validPairsOf_finite [of _ x y] by (auto simp: list_all_iff)
  have mx: "calculateAverage (Array (map Num (map fst ?ps))) = spec_mean (map fst ?ps)"
    using ne fx by (intro calculateAverage_finite) simp_all
  have my: "calculateAverage (Array (map Num (map snd ?ps))) = spec_mean (map snd ?ps)"
    using ne fy by (intro calculateAverage_finite) simp_all
  show ?thesis
    using False assms x0
    by (simp add: calculatePearsonCorrelation_def Let_def mx my foldl_accumulate spec_pearson_def
        del: map_map)
qed

section \<open>The population standard deviation\<close>

text \<open>
  \<open>calculateStandardDeviation\<close> keeps the finite numbers of its input and returns 0 when none
  is left. Where every squared deviation is finite, \<open>calculateAverage\<close> drops nothing and the
  result is the formula \<open>sqrt(mean((x - mean(x))^2))\<close> evaluated in binary64 arithmetic in the
  order of the code, both means dividing by the number of kept entries. On
  \<open>[2,4,4,4,5,5,7,9]\<close> the result is exactly 2.
\<close>

lemma standardDeviation_formula:
  "map Num (validNumbersOf numbers) = filter spec_isFiniteNumber numbers \<and>
   (validNumbersOf numbers = [] \<longrightarrow> calculateStandardDeviation (Array numbers) = Fin 0) \<and>
   (validNumbersOf numbers \<noteq> [] \<and>
    list_all isFinite (spec_squaredDeviations (validNumbersOf numbers)) \<longrightarrow>
      calculateStandardDeviation (Array numbers) = spec_populationSD (validNumbersOf numbers)) \<and>
   calculateStandardDeviation (Array sdExample) = Fin 2"
proof (intro conjI impI)
  show "map Num (validNumbersOf numbers) = filter spec_isFiniteNumber numbers"
    by (rule validNumbersOf_clean)
  show "calculateStandardDeviation (Array numbers) = Fin 0" if "validNumbersOf numbers = []"
    using that by (simp add: calculateStandardDeviation_def)
  show "calculateStandardDeviation (Array numbers) = spec_populationSD (validNumbersOf numbers)"
    if h: "validNumbersOf numbers \<noteq> [] \<and>
      list_all isFinite (spec_squaredDeviations (validNumbersOf numbers))"
  proof -
    let ?c = "validNumbersOf numbers"
    from h have ne: "?c \<noteq> []" and fin: "list_all isFinite (spec_squaredDeviations ?c)" by simp_all
    have nn: "numbers \<noteq> []" using ne by auto
    have m: "calculateAverage (Array (map Num ?c)) = spec_mean ?c"
      using ne validNumbersOf_all_finite by (rule calculateAverage_finite)
    have sq: "map (\<lambda>num. jpow2 (jsub num (spec_mean ?c))) ?c = spec_squaredDeviations ?c"
      by (simp add: spec_squaredDeviations_def)
    have sne: "spec_squaredDeviations ?c \<noteq> []" using ne by (simp add: spec_squaredDeviations_def)
    have v: "calculateAverage (Array (map Num (spec_squaredDeviations ?c)))
        = spec_mean (spec_squaredDeviations ?c)"
      using sne fin by (rule calculateAverage_finite)
    show ?thesis
      using ne nn
      by (simp add: calculateStandardDeviation_def Let_def m sq v spec_populationSD_def del: map_map)
  qed
  show "calculateStandardDeviation (Array sdExample) = Fin 2"
    by (simp add: sdExample_def calculateStandardDeviation_def calculateAverage_def jsub_def rnd_small)
qed

lemma sdMixed_valid: "validNumbersOf sdMixed = [Fin 1, Fin 3]"
  by (simp add: sdMixed_def)

lemma standardDeviation_mixed:
  "validNumbersOf sdMixed \<noteq> [] \<and>
   list_all isFinite (spec_squaredDeviations (validNumbersOf sdMixed)) \<and>
   calculateStandardDeviation (Array sdMixed) = spec_populationSD [Fin 1, Fin 3] \<and>
   spec_populationSD [Fin 1, Fin 3] = Fin 1"
proof -
  have a: "validNumbersOf sdMixed \<noteq> []" by (simp add: sdMixed_valid)
  have b: "list_all isFinite (spec_squaredDeviations (validNumbersOf sdMixed))"
    by (simp add: sdMixed_valid spec_squaredDeviations_def spec_mean_def jsub_def rnd_small)
  have c: "spec_populationSD [Fin 1, Fin 3] = Fin 1"
    by (simp add: spec_populationSD_def spec_squaredDeviations_def spec_mean_def jsub_def rnd_small)
  from standardDeviation_formula [of sdMixed] a b
  have "calculateStandardDeviation (Array sdMixed) = spec_populationSD (validNumbersOf sdMixed)"
    by blast
  with a b c show ?thesis by (simp add: sdMixed_valid)
qed

lemma sdExample_result: "calculateStandardDeviation (Array sdExample) = Fin 2"
  using standardDeviation_formula [of sdExample] by blast

text \<open>
  C7 says that for every input list the result is the population standard deviation of
  the finite entries. On \<open>2 ^ 600\<close> and \<open>- (2 ^ 600)\<close> the mean is 0 and both squared
  deviations overflow to Infinity; \<open>calculateAverage\<close>, called for the variance, drops them
  with its filter for finite numbers, finds nothing left and returns 0, and the result
  is 0. The population standard deviation of the two numbers is \<open>2 ^ 600\<close>.
\<close>

theorem standardDeviation_overflow:
  "validNumbersOf hugeVector = [Fin huge, Fin (- huge)] \<and>
   calculateAverage (Array hugeVector) = Fin 0 \<and>
   jpow2 (jsub (Fin huge) (Fin 0)) = PInf \<and>
   jpow2 (jsub (Fin (- huge)) (Fin 0)) = PInf \<and>
   calculateAverage (Array [Num PInf, Num PInf]) = Fin 0 \<and>
   calculateStandardDeviation (Array hugeVector) = Fin 0 \<and>
   sqrt (((huge - 0)\<^sup>2 + (- huge - 0)\<^sup>2) / 2) = huge \<and> 0 < huge"
proof -
  have "sqrt (((huge - 0)\<^sup>2 + (- huge - 0)\<^sup>2) / 2) = sqrt (huge\<^sup>2)" by simp
  also have "\<dots> = huge" using huge_pos by simp
  finally have r: "sqrt (((huge - 0)\<^sup>2 + (- huge - 0)\<^sup>2) / 2) = huge" .
  have v: "validNumbersOf hugeVector = [Fin huge, Fin (- huge)]"
    by (simp add: hugeVector_def)
  have m: "calculateAverage (Array hugeVector) = Fin 0"
    by (simp add: calculateAverage_def hugeVector_def rnd_huge_simps)
  have p: "jpow2 (jsub (Fin huge) (Fin 0)) = PInf" "jpow2 (jsub (Fin (- huge)) (Fin 0)) = PInf"
    by (simp_all add: jsub_def rnd_huge_simps)
  have e: "calculateAverage (Array [Num PInf, Num PInf]) = Fin 0"
    by (simp add: calculateAverage_def)
  have s: "calculateStandardDeviation (Array hugeVector) = Fin 0"
    by (simp add: calculateStandardDeviation_def calculateAverage_def jsub_def
        hugeVector_def rnd_huge_simps)
  from r v m p e s huge_pos show ?thesis by blast
qed

section \<open>Properties of the union alignment\<close>

lemma set_foldl_setAdd:
  "set (foldl (\<lambda>s point. setAdd s (timestamp point)) s points) = set s \<union> timestamp ` set points"
  by (induction points arbitrary: s) (auto simp: set_setAdd)

lemma distinct_foldl_setAdd:
  "distinct s \<Longrightarrow> distinct (foldl (\<lambda>s point. setAdd s (timestamp point)) s points)"
  by (induction points arbitrary: s) (auto simp: distinct_setAdd)

lemma set_union_foldl:
  "set (foldl (\<lambda>allTimestamps ticker.
              case getSeries stocksData ticker of
                None \<Rightarrow> allTimestamps
              | Some points \<Rightarrow> foldl (\<lambda>s point. setAdd s (timestamp point)) allTimestamps points)
       s ks)
   = set s \<union> (\<Union>ticker \<in> set ks. timestamp ` set (stockDataOf stocksData ticker))"
proof (induction ks arbitrary: s)
  case Nil
  then show ?case by simp
next
  case (Cons k ks)
  show ?case
    by (cases "getSeries stocksData k") (auto simp: Cons.IH set_foldl_setAdd stockDataOf_def)
qed

lemma distinct_union_foldl:
  "distinct s \<Longrightarrow> distinct (foldl (\<lambda>allTimestamps ticker.
              case getSeries stocksData ticker of
                None \<Rightarrow> allTimestamps
              | Some points \<Rightarrow> foldl (\<lambda>s point. setAdd s (timestamp point)) allTimestamps points)
       s ks)"
  by (induction ks arbitrary: s) (auto simp: distinct_foldl_setAdd split: option.splits)

lemma set_unionTimestamps: "set (unionTimestamps stocksData) = spec_unionTimestamps stocksData"
  unfolding unionTimestamps_def spec_unionTimestamps_def by (simp only: set_union_foldl) simp

lemma distinct_unionTimestamps: "distinct (unionTimestamps stocksData)"
  unfolding unionTimestamps_def by (rule distinct_union_foldl) simp

lemma find_filter: "find P xs = (case filter P xs of [] \<Rightarrow> None | x # _ \<Rightarrow> Some x)"
  by (induction xs) auto

lemma pushPrices_spec: "pushPrices points grid = spec_vector points grid"
proof (induction grid)
  case Nil
  then show ?case by (simp add: spec_vector_def)
next
  case (Cons ts grid)
  show ?case
  proof (cases "filter (\<lambda>point. timestamp point = ts) points")
    case Nil
    then have "ts \<notin> timestamp ` set points" by (auto simp: filter_empty_conv)
    with Nil Cons.IH show ?thesis by (simp add: find_filter spec_vector_def)
  next
    case (Cons p ps)
    then have "p \<in> set (filter (\<lambda>point. timestamp point = ts) points)" by simp
    then have "ts \<in> timestamp ` set points" by auto
    with Cons Cons.IH show ?thesis by (simp add: find_filter spec_vector_def spec_firstPrice_def)
  qed
qed

text \<open>
  C8: the grid of \<open>alignStockData\<close> is the sorted union of the timestamps of all tickers,
  without repetition; the vector of a ticker has one price for every timestamp of the grid
  at which the ticker has a point and nothing for the others; the result keeps, in the
  order of the input, the tickers whose vector has at least two entries, so every vector
  in the result has at least two entries.
\<close>

theorem alignStockData_union:
  "sorted (sort (unionTimestamps stocksData)) \<and>
   distinct (sort (unionTimestamps stocksData)) \<and>
   set (sort (unionTimestamps stocksData)) = spec_unionTimestamps stocksData \<and>
   alignStockData stocksData =
     map (\<lambda>ticker. (ticker, spec_vector (stockDataOf stocksData ticker) (sort (unionTimestamps stocksData))))
       (filter (\<lambda>ticker. 2 \<le> length (spec_vector (stockDataOf stocksData ticker)
                                         (sort (unionTimestamps stocksData))))
          (map fst stocksData)) \<and>
   (\<forall>(ticker, prices) \<in> set (alignStockData stocksData). 2 \<le> length prices)"
proof -
  have eq: "alignStockData stocksData =
     map (\<lambda>ticker. (ticker, spec_vector (stockDataOf stocksData ticker) (sort (unionTimestamps stocksData))))
       (filter (\<lambda>ticker. 2 \<le> length (spec_vector (stockDataOf stocksData ticker)
                                         (sort (unionTimestamps stocksData))))
          (map fst stocksData))"
    by (simp add: alignStockData_def Let_def pushPrices_spec filter_map o_def not_less)
  have "\<forall>(ticker, prices) \<in> set (alignStockData stocksData). 2 \<le> length prices"
    by (auto simp: alignStockData_def Let_def)
  with eq show ?thesis
    by (simp add: set_unionTimestamps distinct_unionTimestamps)
qed

lemma exUnion_grid: "sort (unionTimestamps exUnion) = [''t1'', ''t2'', ''t3'']"
  by code_simp

lemma exUnion_result:
  "alignStockData exUnion = [(''AAPL'', [Fin 4, Fin 5]), (''MSFT'', [Fin 2, Fin 1])]"
  by code_simp

theorem alignStockData_union_witness:
  "sort (unionTimestamps exUnion) = [''t1'', ''t2'', ''t3''] \<and>
   spec_unionTimestamps exUnion = {''t1'', ''t2'', ''t3''} \<and>
   alignStockData exUnion = [(''AAPL'', [Fin 4, Fin 5]), (''MSFT'', [Fin 2, Fin 1])] \<and>
   (''MSFT'', [Fin 2, Fin 1]) \<in> set (alignStockData exUnion) \<and>
   2 \<le> length [Fin 2, Fin (1::real)]"
proof -
  note th = alignStockData_union [of exUnion]
  have "set (sort (unionTimestamps exUnion)) = spec_unionTimestamps exUnion"
    by (rule th [THEN conjunct2, THEN conjunct2, THEN conjunct1])
  then have u: "spec_unionTimestamps exUnion = set [''t1'', ''t2'', ''t3'']"
    by (simp only: exUnion_grid)
  have m: "(''MSFT'', [Fin 2, Fin 1]) \<in> set (alignStockData exUnion)"
    by (simp only: exUnion_result) simp
  from u m show ?thesis
    by (simp only: exUnion_grid exUnion_result) simp
qed

text \<open>
  C9 says that a price that is not finite never appears in an aligned vector, in either
  mode. \<open>alignStockData\<close> pushes the price of a point without looking at it: a NaN price is
  in the vector it returns.
\<close>

theorem union_keeps_NaN: "alignStockData exUnionNaN = [(''AAPL'', [NaN, Fin 1])]"
  by code_simp

end
